theory Spec2Isabelle
  imports Main
begin

section \<open>The chat server's connection handlers (src/server/handlers.js)\<close>

text \<open>
  The handlers of \<^verbatim>\<open>src/server/handlers.js\<close> are closures over one connection
  (\<^verbatim>\<open>client\<close>), the client manager and the chatroom manager. The two managers and the
  chatroom objects are mutable and shared; here they are the fields of one explicit
  \<open>world\<close> that every handler takes and returns. The managers and the chatroom class live
  in other modules of the server; their operations are modelled from the specification,
  and each such definition says so.

  Conventions of the embedding:
  \<^item> a connection is identified with its \<^verbatim>\<open>client.id\<close>, a string;
  \<^item> a value that may be JavaScript's \<^verbatim>\<open>undefined\<close> is an \<open>option\<close>, \<open>None\<close> being
    \<^verbatim>\<open>undefined\<close>; a room name is a string or \<^verbatim>\<open>undefined\<close>, a payload an object or
    \<^verbatim>\<open>undefined\<close>, a display name a string;
  \<^item> the callback that the transport hands to a handler is a function, and what the
    handler passes to it is recorded; only \<open>handleMessage\<close>, whose call without any
    argument is of interest, takes its callback as a value that may be \<^verbatim>\<open>undefined\<close>;
  \<^item> a promise that a handler drops and that is then rejected is recorded as an
    unhandled rejection; what the runtime does with it (a warning, or the end of the
    process) is not part of the model;
  \<^item> a chatroom object is referred to by the key under which the store holds it (its
    \<^verbatim>\<open>name\<close>); a method call on the object is a function of that key and the world;
  \<^item> \<^verbatim>\<open>new Date().toUTCString()\<close> is an input of the handler;
  \<^item> every mutating call on a manager or a chatroom, every broadcast and every call of
    the callback is appended to the world's \<open>trace\<close>, in the order in which the calls
    happen, so that claims about ordering can be stated;
  \<^item> a handler is run alone, up to the point where no promise reaction is pending.
\<close>

subsection \<open>Data\<close>

type_synonym clientId = string

text \<open>
  A chat entry, as line 59 builds it:
  \<^verbatim>\<open>{ clientId, userName, timestamp: new Date().toUTCString(), ...createEntry() }\<close>.
  \<^verbatim>\<open>createEntry()\<close> adds either the key \<^verbatim>\<open>event\<close> or the key \<^verbatim>\<open>message\<close>
  (whose value is \<^verbatim>\<open>undefined\<close> when the message payload had none); the client's
  interface \<^verbatim>\<open>IChat\<close> declares both as optional strings.
\<close>

record chatEntry =
  clientId :: clientId
  userName :: string
  timestamp :: string
  event :: "string option"
  message :: "string option"

datatype entryPayload = Event string | Message "string option"

text \<open>The argument of \<^verbatim>\<open>broadcastMessage\<close> at line 63: \<^verbatim>\<open>{ chat: chatroomName, ...entry }\<close>.\<close>

record chatMessage =
  chat :: "string option"
  body :: chatEntry

record chatroom =
  members :: "clientId list"
  chatHistory :: "chatEntry list"

record chatroomSummary =
  name :: string
  memberCount :: nat
  historyLength :: nat

text \<open>
  What a handler passes to its callback: \<^verbatim>\<open>callback(err)\<close> is \<open>Failure err\<close>,
  \<^verbatim>\<open>callback(null, value)\<close> carries the value, \<^verbatim>\<open>callback(null)\<close> is \<open>Done\<close>.
\<close>

datatype reply =
    Failure string
  | Registered clientId string
  | History "chatEntry list"
  | Chatrooms "chatroomSummary list"
  | Done

text \<open>The calls that the trace records.\<close>

datatype effect =
    RegisterClient clientId string
  | ClientsRemoveClient clientId
  | ChatroomsRemoveClient clientId
  | AddEntry string chatEntry
  | BroadcastMessage string "clientId list" chatMessage
  | AddUser string clientId
  | RemoveUser string clientId
  | Callback reply
  | UnhandledRejection string

text \<open>
  The registry of the client manager (connection id and display name), the rooms of the
  chatroom manager under their names, and the trace.
\<close>

record world =
  clients :: "(clientId \<times> string) list"
  chatrooms :: "(string \<times> chatroom) list"
  trace :: "effect list"

definition logged :: "effect \<Rightarrow> world \<Rightarrow> world" where
  "logged e w = w\<lparr>trace := trace w @ [e]\<rparr>"

subsection \<open>Keyed collections\<close>

text \<open>
  Both managers keep a keyed collection in insertion order. \<open>map_of\<close> reads a key,
  \<open>mapSet\<close> overwrites the value of a present key in place and appends an absent one,
  \<open>mapDelete\<close> drops a key, \<open>mapModify\<close> changes the value stored under a key and
  does nothing for an absent key.
\<close>

fun mapSet :: "'k \<Rightarrow> 'v \<Rightarrow> ('k \<times> 'v) list \<Rightarrow> ('k \<times> 'v) list" where
  "mapSet k v [] = [(k, v)]"
| "mapSet k v ((k', v') # kvs) = (if k' = k then (k, v) # kvs else (k', v') # mapSet k v kvs)"

fun mapDelete :: "'k \<Rightarrow> ('k \<times> 'v) list \<Rightarrow> ('k \<times> 'v) list" where
  "mapDelete k [] = []"
| "mapDelete k ((k', v') # kvs) = (if k' = k then mapDelete k kvs else (k', v') # mapDelete k kvs)"

fun mapModify :: "'k \<Rightarrow> ('v \<Rightarrow> 'v) \<Rightarrow> ('k \<times> 'v) list \<Rightarrow> ('k \<times> 'v) list" where
  "mapModify k f [] = []"
| "mapModify k f ((k', v') # kvs) =
     (if k' = k then (k', f v') # kvs else (k', v') # mapModify k f kvs)"

subsection \<open>The client manager\<close>

text \<open>
  Modelled from the spec: the client manager's lookup
  \<open>getNameByConnectionId(connectionId) -> name | absent\<close>.
\<close>

definition getUserByClientId :: "world \<Rightarrow> clientId \<Rightarrow> string option" where
  "getUserByClientId w cid = map_of (clients w) cid"

text \<open>
  Modelled from the spec: the client manager's \<open>isNameAvailable(name)\<close>,
  true iff no currently-registered connection holds the name.
\<close>

definition isUserAvailable :: "world \<Rightarrow> string \<Rightarrow> bool" where
  "isUserAvailable w uname = (uname \<notin> set (map snd (clients w)))"

text \<open>
  Modelled from the spec: the client manager's \<open>register(connectionId, name)\<close>
  binds the name to the connection and overwrites a prior binding.
\<close>

definition registerClient :: "clientId \<Rightarrow> string \<Rightarrow> world \<Rightarrow> world" where
  "registerClient cid uname w =
     logged (RegisterClient cid uname) (w\<lparr>clients := mapSet cid uname (clients w)\<rparr>)"

text \<open>
  Modelled from the spec: the client manager's \<open>remove(connectionId)\<close> erases the
  binding and is a no-op if there is none.
\<close>

definition clientManager_removeClient :: "clientId \<Rightarrow> world \<Rightarrow> world" where
  "clientManager_removeClient cid w =
     logged (ClientsRemoveClient cid) (w\<lparr>clients := mapDelete cid (clients w)\<rparr>)"

subsection \<open>The chatroom manager and its chatrooms\<close>

text \<open>
  Modelled from the spec: the chatroom manager's \<open>getByName(name) -> Chatroom | absent\<close>.
  Rooms are keyed by strings, so \<open>undefined\<close> names no room. The chatroom found is
  returned as its key.
\<close>

definition getChatroomByName :: "world \<Rightarrow> string option \<Rightarrow> string option" where
  "getChatroomByName w chatroomName =
     (case chatroomName of
        None \<Rightarrow> None
      | Some n \<Rightarrow> (case map_of (chatrooms w) n of None \<Rightarrow> None | Some c \<Rightarrow> Some n))"

text \<open>
  Modelled from the spec: a room summary \<open>{name, memberCount, historyLength}\<close>.
\<close>

definition serialize :: "string \<times> chatroom \<Rightarrow> chatroomSummary" where
  "serialize kc =
     \<lparr>name = fst kc, memberCount = length (members (snd kc)),
      historyLength = length (chatHistory (snd kc))\<rparr>"

text \<open>
  Modelled from the spec: the chatroom manager's \<open>listSerialized\<close> without its filter
  (the handler filters), one summary per room in insertion order.
\<close>

definition serializeChatrooms :: "world \<Rightarrow> chatroomSummary list" where
  "serializeChatrooms w = map serialize (chatrooms w)"

text \<open>
  Modelled from the spec: the chatroom manager's \<open>roomsContaining(connectionId)\<close>, a
  snapshot of all rooms of which the connection is a member (here their keys, which are
  the rooms' \<open>name\<close>s).
\<close>

definition getChatroomsByClientId :: "world \<Rightarrow> clientId \<Rightarrow> string list" where
  "getChatroomsByClientId w cid =
     map fst (filter (\<lambda>kc. cid \<in> set (members (snd kc))) (chatrooms w))"

text \<open>
  Modelled from the spec: the store-wide \<open>removeMember(connectionId)\<close> removes the
  connection from every room's membership.
\<close>

definition chatroomManager_removeClient :: "clientId \<Rightarrow> world \<Rightarrow> world" where
  "chatroomManager_removeClient cid w =
     logged (ChatroomsRemoveClient cid)
       (w\<lparr>chatrooms := map (\<lambda>kc. (fst kc, (snd kc)\<lparr>members := removeAll cid (members (snd kc))\<rparr>))
                          (chatrooms w)\<rparr>)"

definition membersOf :: "world \<Rightarrow> string \<Rightarrow> clientId list" where
  "membersOf w room = (case map_of (chatrooms w) room of None \<Rightarrow> [] | Some c \<Rightarrow> members c)"

text \<open>
  Modelled from the spec: the chatroom's \<open>getHistory()\<close> returns the full history.
\<close>

definition getChatHistory :: "world \<Rightarrow> string \<Rightarrow> chatEntry list" where
  "getChatHistory w room =
     (case map_of (chatrooms w) room of None \<Rightarrow> [] | Some c \<Rightarrow> chatHistory c)"

text \<open>
  Modelled from the spec: the chatroom's \<open>addEntry(entry)\<close> appends to the history.
\<close>

definition addEntry :: "string \<Rightarrow> chatEntry \<Rightarrow> world \<Rightarrow> world" where
  "addEntry room entry w =
     logged (AddEntry room entry)
       (w\<lparr>chatrooms := mapModify room (\<lambda>c. c\<lparr>chatHistory := chatHistory c @ [entry]\<rparr>)
                          (chatrooms w)\<rparr>)"

text \<open>
  Modelled from the spec: the chatroom's \<open>broadcast(payload)\<close> delivers the payload to
  every current member, over a snapshot of the member set taken at call time. The
  delivery is recorded with its targets.
\<close>

definition broadcastMessage :: "string \<Rightarrow> chatMessage \<Rightarrow> world \<Rightarrow> world" where
  "broadcastMessage room msg w = logged (BroadcastMessage room (membersOf w room) msg) w"

text \<open>
  Modelled from the spec: the chatroom's \<open>addMember(connectionId)\<close>, an idempotent
  set-membership mutation.
\<close>

definition addUser :: "string \<Rightarrow> clientId \<Rightarrow> world \<Rightarrow> world" where
  "addUser room cid w =
     logged (AddUser room cid)
       (w\<lparr>chatrooms :=
            mapModify room
              (\<lambda>c. c\<lparr>members := (if cid \<in> set (members c) then members c else members c @ [cid])\<rparr>)
              (chatrooms w)\<rparr>)"

text \<open>
  Modelled from the spec: the chatroom's \<open>removeMember(connectionId)\<close>, an idempotent
  set-membership mutation.
\<close>

definition removeUser :: "string \<Rightarrow> clientId \<Rightarrow> world \<Rightarrow> world" where
  "removeUser room cid w =
     logged (RemoveUser room cid)
       (w\<lparr>chatrooms := mapModify room (\<lambda>c. c\<lparr>members := removeAll cid (members c)\<rparr>)
                          (chatrooms w)\<rparr>)"

subsection \<open>makeHandleEvent (lines 9 to 69)\<close>

text \<open>
  \<^verbatim>\<open>ensureExists\<close> (lines 17 to 22) calls the getter inside the promise's executor, that
  is at once, and settles the promise by the truthiness of the result:
  \<^verbatim>\<open>res ? resolve(res) : reject(rejectionMessage)\<close>. The result of a lookup is falsy
  when it is \<^verbatim>\<open>undefined\<close>, and also when it is the empty string; a chatroom object is
  always truthy. The rejected promise is \<open>Inl\<close> of the message.
\<close>

definition ensureExists :: "('a \<Rightarrow> bool) \<Rightarrow> 'a option \<Rightarrow> string \<Rightarrow> string + 'a" where
  "ensureExists truthy res rejectionMessage =
     (case res of
        None \<Rightarrow> Inl rejectionMessage
      | Some v \<Rightarrow> if truthy v then Inr v else Inl rejectionMessage)"

definition truthyString :: "string \<Rightarrow> bool" where
  "truthyString s = (s \<noteq> '''')"

definition truthyObject :: "string \<Rightarrow> bool" where
  "truthyObject ref = True"

text \<open>Template literals print \<^verbatim>\<open>undefined\<close> as the word.\<close>

definition templateString :: "string option \<Rightarrow> string" where
  "templateString v = (case v of None \<Rightarrow> ''undefined'' | Some s \<Rightarrow> s)"

definition ensureUser :: "world \<Rightarrow> clientId \<Rightarrow> string + string" where
  "ensureUser w cid =
     ensureExists truthyString (getUserByClientId w cid) ''Register username to chat.''"

definition ensureValidChatroom :: "world \<Rightarrow> string option \<Rightarrow> string + string" where
  "ensureValidChatroom w chatroomName =
     ensureExists truthyObject (getChatroomByName w chatroomName)
       (''Invalid chatroom name: '' @ templateString chatroomName)"

text \<open>
  \<^verbatim>\<open>Promise.all([ensureValidChatroom(chatroomName), ensureUser(client.id)])\<close> (line 51):
  both promises are created, hence both lookups made, before \<^verbatim>\<open>Promise.all\<close> runs;
  both are settled by then, and \<^verbatim>\<open>Promise.all\<close> rejects with the reason of the first
  rejected promise in the order of the array.
\<close>

definition ensureValidChatroomAndUser ::
  "clientId \<Rightarrow> string option \<Rightarrow> world \<Rightarrow> string + (string \<times> string \<times> clientId)" where
  "ensureValidChatroomAndUser cid chatroomName w =
     (let chatroomPromise = ensureValidChatroom w chatroomName;
          userPromise = ensureUser w cid
      in case chatroomPromise of
           Inl reason \<Rightarrow> Inl reason
         | Inr room \<Rightarrow>
             (case userPromise of
                Inl reason \<Rightarrow> Inl reason
              | Inr uname \<Rightarrow> Inr (room, uname, cid)))"

definition makeEntry :: "clientId \<Rightarrow> string \<Rightarrow> string \<Rightarrow> entryPayload \<Rightarrow> chatEntry" where
  "makeEntry cid user now payload =
     (case payload of
        Event e \<Rightarrow>
          \<lparr>clientId = cid, userName = user, timestamp = now, event = Some e, message = None\<rparr>
      | Message m \<Rightarrow>
          \<lparr>clientId = cid, userName = user, timestamp = now, event = None, message = m\<rparr>)"

text \<open>
  The reaction of lines 57 to 65, which runs once the validation has resolved: build the
  entry, append it, broadcast it, hand the chatroom on.
\<close>

definition recordEvent ::
  "string option \<Rightarrow> entryPayload \<Rightarrow> string \<Rightarrow> string \<times> string \<times> clientId \<Rightarrow> world \<Rightarrow> world" where
  "recordEvent chatroomName createEntry now ctx w =
     (case ctx of (room, user, cid) \<Rightarrow>
        (let entry = makeEntry cid user now createEntry;
             w1 = addEntry room entry w
         in broadcastMessage room \<lparr>chat = chatroomName, body = entry\<rparr> w1))"

definition handleEvent ::
  "clientId \<Rightarrow> string option \<Rightarrow> entryPayload \<Rightarrow> string \<Rightarrow> world \<Rightarrow> (string + string) \<times> world" where
  "handleEvent cid chatroomName createEntry now w =
     (case ensureValidChatroomAndUser cid chatroomName w of
        Inl reason \<Rightarrow> (Inl reason, w)
      | Inr ctx \<Rightarrow> (Inr (fst ctx), recordEvent chatroomName createEntry now ctx w))"

subsection \<open>The exported handlers (lines 79 to 195)\<close>

text \<open>
  \<^verbatim>\<open>handleRegister\<close> (lines 89 to 95). The callback's argument is recorded in the
  trace.
\<close>

definition handleRegister :: "clientId \<Rightarrow> string \<Rightarrow> world \<Rightarrow> world" where
  "handleRegister cid uname w =
     (if \<not> isUserAvailable w uname
      then logged (Callback (Failure (''Username '' @ uname @ '' not available''))) w
      else logged (Callback (Registered cid uname)) (registerClient cid uname w))"

text \<open>
  \<^verbatim>\<open>handleJoin\<close> (lines 103 to 115): after the event, \<^verbatim>\<open>chatroom.addUser(client)\<close>,
  then the callback with the awaited chat history; a rejection goes to the callback
  through \<^verbatim>\<open>.catch(callback)\<close>. Its \<^verbatim>\<open>createEntry\<close> returns
  \<^verbatim>\<open>{ event: `joined ${chatroomName}` }\<close>.
\<close>

definition joinedEntry :: "string option \<Rightarrow> entryPayload" where
  "joinedEntry chatroomName = Event (''joined '' @ templateString chatroomName)"

definition handleJoin :: "clientId \<Rightarrow> string option \<Rightarrow> string \<Rightarrow> world \<Rightarrow> world" where
  "handleJoin cid chatroomName now w =
     (case handleEvent cid chatroomName (joinedEntry chatroomName) now w of
        (Inl reason, w1) \<Rightarrow> logged (Callback (Failure reason)) w1
      | (Inr room, w1) \<Rightarrow>
          (let w2 = addUser room cid w1
           in logged (Callback (History (getChatHistory w2 room))) w2))"

text \<open>
  \<^verbatim>\<open>handleLeave\<close> (lines 123 to 134). Its \<^verbatim>\<open>createEntry\<close>, the object
  \<^verbatim>\<open>{ event: `left ${chatroomName}` }\<close>, is also what \<^verbatim>\<open>handleDisconnect\<close> passes for
  each room.
\<close>

definition leftEntry :: "string option \<Rightarrow> entryPayload" where
  "leftEntry chatroomName = Event (''left '' @ templateString chatroomName)"

definition handleLeave :: "clientId \<Rightarrow> string option \<Rightarrow> string \<Rightarrow> world \<Rightarrow> world" where
  "handleLeave cid chatroomName now w =
     (case handleEvent cid chatroomName (leftEntry chatroomName) now w of
        (Inl reason, w1) \<Rightarrow> logged (Callback (Failure reason)) w1
      | (Inr room, w1) \<Rightarrow> logged (Callback Done) (removeUser room cid w1))"

text \<open>
  \<^verbatim>\<open>handleMessage\<close> (lines 142 to 148). Its first parameter is the pattern
  \<^verbatim>\<open>{ chatroomName, message } = {}\<close>: an \<^verbatim>\<open>undefined\<close> payload is replaced by the
  empty object, in which both keys are \<^verbatim>\<open>undefined\<close>. The payload's keys
  \<^verbatim>\<open>chatroomName\<close> and \<^verbatim>\<open>message\<close> are the fields \<open>msg_chatroomName\<close> and
  \<open>msg_message\<close>.
\<close>

record messagePayload =
  msg_chatroomName :: "string option"
  msg_message :: "string option"

definition payloadOrDefault :: "messagePayload option \<Rightarrow> messagePayload" where
  "payloadOrDefault payload =
     (case payload of
        None \<Rightarrow> \<lparr>msg_chatroomName = None, msg_message = None\<rparr>
      | Some p \<Rightarrow> p)"

text \<open>
  The second parameter is the callback: \<open>Some Ack\<close> when the caller passed a function,
  \<open>None\<close> when it passed nothing. The handler is an \<^verbatim>\<open>async\<close> function, so it never
  throws: it returns a promise, fulfilled (\<open>Inr ()\<close>) or rejected (\<open>Inl\<close> of the reason).
  With a function, \<^verbatim>\<open>.then(() => callback(null))\<close> reports success and
  \<^verbatim>\<open>.catch(callback)\<close> hands a rejection of \<^verbatim>\<open>handleEvent\<close> to the callback, and the
  promise is fulfilled. Without one, \<^verbatim>\<open>.catch(undefined)\<close> passes the rejection on, so the
  promise is rejected with the reason of the validation; and after a successful event the
  call \<^verbatim>\<open>callback(null)\<close> of \<^verbatim>\<open>undefined\<close> throws a \<^verbatim>\<open>TypeError\<close>, with which the
  promise is rejected.
\<close>

datatype ack = Ack

datatype jsError = TypeError

datatype rejection = Reason string | Thrown jsError

definition handleMessage ::
  "clientId \<Rightarrow> messagePayload option \<Rightarrow> ack option \<Rightarrow> string \<Rightarrow> world \<Rightarrow>
   (rejection + unit) \<times> world" where
  "handleMessage cid payload callback now w =
     (let p = payloadOrDefault payload
      in case handleEvent cid (msg_chatroomName p) (Message (msg_message p)) now w of
           (Inl reason, w1) \<Rightarrow>
             (case callback of
                None \<Rightarrow> (Inl (Reason reason), w1)
              | Some f \<Rightarrow> (Inr (), logged (Callback (Failure reason)) w1))
         | (Inr room, w1) \<Rightarrow>
             (case callback of
                None \<Rightarrow> (Inl (Thrown TypeError), w1)
              | Some f \<Rightarrow> (Inr (), logged (Callback Done) w1)))"

text \<open>
  \<^verbatim>\<open>handleGetChatrooms\<close> (lines 156 to 159). Its first parameter is the pattern
  \<^verbatim>\<open>{ chatroomNameFilter }\<close> with no default, so an \<^verbatim>\<open>undefined\<close> payload makes
  the call throw a \<^verbatim>\<open>TypeError\<close> before anything else happens. The filter
  \<^verbatim>\<open>c => (chatroomNameFilter ? c.name === chatroomNameFilter : true)\<close> tests the
  truthiness of the filter string.
\<close>

record chatroomsPayload =
  chatroomNameFilter :: "string option"

definition matchesFilter :: "string option \<Rightarrow> chatroomSummary \<Rightarrow> bool" where
  "matchesFilter nameFilter c =
     (case nameFilter of
        None \<Rightarrow> True
      | Some f \<Rightarrow> if truthyString f then name c = f else True)"

definition handleGetChatrooms :: "chatroomsPayload option \<Rightarrow> world \<Rightarrow> jsError + world" where
  "handleGetChatrooms payload w =
     (case payload of
        None \<Rightarrow> Inl TypeError
      | Some p \<Rightarrow>
          Inr (logged (Callback (Chatrooms (filter (matchesFilter (chatroomNameFilter p))
                                                   (serializeChatrooms w)))) w))"

text \<open>\<^verbatim>\<open>handleCreateChatroom\<close> (lines 168 to 171): a comment and \<^verbatim>\<open>return;\<close>.\<close>

definition handleCreateChatroom :: "string option \<Rightarrow> world \<Rightarrow> world" where
  "handleCreateChatroom chatroomName w = w"

text \<open>
  \<^verbatim>\<open>handleDisconnect\<close> (lines 177 to 184). \<^verbatim>\<open>forEach\<close> calls \<^verbatim>\<open>handleEvent\<close>
  for every room of the snapshot and drops the promise of each call.
  Each call runs at once up to its validation: the two lookups are made inside the promise
  executors, on the world as it is when the handler starts. The reaction that appends and
  broadcasts is queued behind the settling of \<^verbatim>\<open>Promise.all\<close>, whereas the
  continuation of \<^verbatim>\<open>await undefined\<close> (the value of \<^verbatim>\<open>forEach\<close>) is queued as
  soon as \<^verbatim>\<open>forEach\<close> returns. Hence the order of the run: all validations, then both
  \<^verbatim>\<open>removeClient\<close> calls, then, room after room, what follows from each validation.
  One that resolved is followed by the reaction that appends and broadcasts; \<open>clock room\<close>
  is the time read when the entry for \<open>room\<close> is built. One that rejected makes the
  promise of its \<^verbatim>\<open>handleEvent\<close> call reject, and line 179 attaches no handler to that
  promise (the other handlers end in \<^verbatim>\<open>.catch(callback)\<close>, this one has no
  \<^verbatim>\<open>catch\<close>): the rejection is left unhandled.
\<close>

definition leaveReaction ::
  "(string \<Rightarrow> string) \<Rightarrow> world \<Rightarrow> string \<times> (string + string \<times> string \<times> clientId) \<Rightarrow> world" where
  "leaveReaction clock w pending =
     (case pending of (room, validation) \<Rightarrow>
        (case validation of
           Inl reason \<Rightarrow> logged (UnhandledRejection reason) w
         | Inr ctx \<Rightarrow> recordEvent (Some room) (leftEntry (Some room)) (clock room) ctx w))"

text \<open>
  The reaction for one room when the validation resolved with the name \<open>uname\<close>.
\<close>

abbreviation (input) leftStep ::
  "clientId \<Rightarrow> string \<Rightarrow> (string \<Rightarrow> string) \<Rightarrow> world \<Rightarrow> string \<Rightarrow> world" where
  "leftStep cid uname clock \<equiv>
     (\<lambda>v room. recordEvent (Some room) (leftEntry (Some room)) (clock room) (room, uname, cid) v)"

definition handleDisconnect :: "clientId \<Rightarrow> (string \<Rightarrow> string) \<Rightarrow> world \<Rightarrow> world" where
  "handleDisconnect cid clock w =
     (let rooms = getChatroomsByClientId w cid;
          validations = map (\<lambda>room. (room, ensureValidChatroomAndUser cid (Some room) w)) rooms;
          w1 = chatroomManager_removeClient cid w;
          w2 = clientManager_removeClient cid w1
      in foldl (leaveReaction clock) w2 validations)"

subsection \<open>Observations\<close>

text \<open>The member lists of all rooms, room by room.\<close>

definition memberships :: "world \<Rightarrow> (string \<times> clientId list) list" where
  "memberships w = map (\<lambda>kc. (fst kc, members (snd kc))) (chatrooms w)"

text \<open>The connections to which the broadcasts of a trace were delivered.\<close>

fun targetsOf :: "effect \<Rightarrow> clientId list" where
  "targetsOf (BroadcastMessage room targets msg) = targets"
| "targetsOf e = []"

definition broadcastTargets :: "effect list \<Rightarrow> clientId list" where
  "broadcastTargets tr = concat (map targetsOf tr)"

subsection \<open>Example worlds\<close>

text \<open>
  Two connections registered as alice and bob, both in the room general, alice also in the
  room random; a third connection, \<open>''c3''\<close>, is connected but has not registered.
\<close>

definition lobby :: world where
  "lobby =
     \<lparr>clients = [(''c1'', ''alice''), (''c2'', ''bob'')],
      chatrooms = [(''general'', \<lparr>members = [''c1'', ''c2''], chatHistory = []\<rparr>),
                   (''random'', \<lparr>members = [''c1''], chatHistory = []\<rparr>)],
      trace = []\<rparr>"

text \<open>A reading of the clock, as \<^verbatim>\<open>toUTCString\<close> prints it.\<close>

definition epoch :: string where
  "epoch = ''Thu, 01 Jan 1970 00:00:00 GMT''"

section \<open>Properties\<close>

subsection \<open>Validation\<close>

lemma ensureValidChatroom_eq:
  "ensureValidChatroom w chatroomName =
     (case getChatroomByName w chatroomName of
        None \<Rightarrow> Inl (''Invalid chatroom name: '' @ templateString chatroomName)
      | Some room \<Rightarrow> Inr room)"
  by (simp add: ensureValidChatroom_def ensureExists_def truthyObject_def split: option.splits)

lemma ensureUser_eq:
  "ensureUser w cid =
     (case getUserByClientId w cid of
        None \<Rightarrow> Inl ''Register username to chat.''
      | Some uname \<Rightarrow> if uname = '''' then Inl ''Register username to chat.'' else Inr uname)"
  by (simp add: ensureUser_def ensureExists_def truthyString_def split: option.splits)

lemma validation_rejects_room:
  "getChatroomByName w chatroomName = None \<Longrightarrow>
   ensureValidChatroomAndUser cid chatroomName w =
     Inl (''Invalid chatroom name: '' @ templateString chatroomName)"
  by (simp add: ensureValidChatroomAndUser_def ensureValidChatroom_eq Let_def)

lemma validation_rejects_user:
  "getChatroomByName w chatroomName = Some room \<Longrightarrow>
   getUserByClientId w cid = None \<or> getUserByClientId w cid = Some '''' \<Longrightarrow>
   ensureValidChatroomAndUser cid chatroomName w = Inl ''Register username to chat.''"
  by (auto simp add: ensureValidChatroomAndUser_def ensureValidChatroom_eq ensureUser_eq Let_def)

lemma validation_resolves:
  "getChatroomByName w chatroomName = Some room \<Longrightarrow>
   getUserByClientId w cid = Some uname \<Longrightarrow> uname \<noteq> '''' \<Longrightarrow>
   ensureValidChatroomAndUser cid chatroomName w = Inr (room, uname, cid)"
  by (simp add: ensureValidChatroomAndUser_def ensureValidChatroom_eq ensureUser_eq Let_def)

lemma validation_resolvesD:
  "ensureValidChatroomAndUser cid chatroomName w = Inr ctx \<Longrightarrow>
   \<exists>room uname. ctx = (room, uname, cid) \<and> getChatroomByName w chatroomName = Some room \<and>
     getUserByClientId w cid = Some uname \<and> uname \<noteq> ''''"
  by (auto simp add: ensureValidChatroomAndUser_def ensureValidChatroom_eq ensureUser_eq Let_def
      split: option.splits if_splits)

lemma getChatroomByName_Some:
  "getChatroomByName w chatroomName = Some room \<longleftrightarrow>
     chatroomName = Some room \<and> (\<exists>c. map_of (chatrooms w) room = Some c)"
  by (auto simp add: getChatroomByName_def split: option.splits)

subsection \<open>Keyed collections\<close>

lemma map_of_mapModify:
  "map_of (mapModify k f kvs) k' =
     (if k' = k then map_option f (map_of kvs k) else map_of kvs k')"
  by (induction kvs) auto

lemma map_of_mapSet: "map_of (mapSet k v kvs) = (map_of kvs)(k \<mapsto> v)"
  by (induction kvs) auto

lemma mapModify_preserves:
  "(\<And>v. g (f v) = g v) \<Longrightarrow>
   map (\<lambda>kc. (fst kc, g (snd kc))) (mapModify k f kvs) = map (\<lambda>kc. (fst kc, g (snd kc))) kvs"
  by (induction kvs) auto

lemma map_fst_mapModify: "map fst (mapModify k f kvs) = map fst kvs"
  by (induction kvs) auto

lemma map_of_mapDelete: "map_of (mapDelete k kvs) = (map_of kvs)(k := None)"
  by (induction kvs) auto

lemma map_of_map_snd:
  "map_of (map (\<lambda>kv. (fst kv, f (snd kv))) kvs) k = map_option f (map_of kvs k)"
  by (induction kvs) auto

lemma membersOf_memberships:
  "membersOf w room = (case map_of (memberships w) room of None \<Rightarrow> [] | Some m \<Rightarrow> m)"
  by (simp add: membersOf_def memberships_def map_of_map_snd split: option.splits)

lemma concat_singletons: "concat (map (\<lambda>x. [f x]) xs) = map f xs"
  by (induction xs) simp_all

lemma map_if_absent:
  "k \<notin> fst ` set kvs \<Longrightarrow>
   map (\<lambda>kv. if fst kv = k then (fst kv, f (snd kv)) else kv) kvs = kvs"
  by (induction kvs) auto

lemma mapModify_distinct:
  "distinct (map fst kvs) \<Longrightarrow>
   mapModify k f kvs = map (\<lambda>kv. if fst kv = k then (fst kv, f (snd kv)) else kv) kvs"
  by (induction kvs) (auto simp add: map_if_absent)

lemma filter_key_absent:
  "k \<notin> fst ` set kvs \<Longrightarrow> filter (\<lambda>r. r = k) (map fst (filter P kvs)) = []"
  by (induction kvs) auto

lemma filter_key_of_selected:
  "distinct (map fst kvs) \<Longrightarrow> kv \<in> set kvs \<Longrightarrow>
   filter (\<lambda>r. r = fst kv) (map fst (filter P kvs)) = (if P kv then [fst kv] else [])"
proof (induction kvs)
  case Nil
  then show ?case by simp
next
  case (Cons a kvs)
  show ?case
  proof (cases "kv = a")
    case True
    with Cons.prems show ?thesis by (simp add: filter_key_absent)
  next
    case False
    with Cons.prems have "kv \<in> set kvs" "fst a \<noteq> fst kv" by (auto simp add: image_iff)
    with Cons show ?thesis by simp
  qed
qed

subsection \<open>What each call changes\<close>

lemma logged_fields:
  "clients (logged e w) = clients w"
  "chatrooms (logged e w) = chatrooms w"
  "trace (logged e w) = trace w @ [e]"
  by (simp_all add: logged_def)

lemma addEntry_fields:
  "clients (addEntry room entry w) = clients w"
  "trace (addEntry room entry w) = trace w @ [AddEntry room entry]"
  "chatrooms (addEntry room entry w) =
     mapModify room (\<lambda>c. c\<lparr>chatHistory := chatHistory c @ [entry]\<rparr>) (chatrooms w)"
  by (simp_all add: addEntry_def logged_fields)

lemma membersOf_addEntry: "membersOf (addEntry room entry w) r = membersOf w r"
  by (simp add: membersOf_def addEntry_fields map_of_mapModify split: option.splits)

lemma getChatHistory_addEntry:
  "map_of (chatrooms w) room = Some c \<Longrightarrow>
   getChatHistory (addEntry room entry w) r =
     (if r = room then getChatHistory w room @ [entry] else getChatHistory w r)"
  by (simp add: getChatHistory_def addEntry_fields map_of_mapModify)

lemma recordEvent_fields:
  "clients (recordEvent chatroomName createEntry now (room, uname, cid) w) = clients w"
  "chatrooms (recordEvent chatroomName createEntry now (room, uname, cid) w) =
     mapModify room
       (\<lambda>c. c\<lparr>chatHistory := chatHistory c @ [makeEntry cid uname now createEntry]\<rparr>)
       (chatrooms w)"
  "trace (recordEvent chatroomName createEntry now (room, uname, cid) w) =
     trace w @ [AddEntry room (makeEntry cid uname now createEntry),
                BroadcastMessage room (membersOf w room)
                  \<lparr>chat = chatroomName, body = makeEntry cid uname now createEntry\<rparr>]"
  by (simp_all add: recordEvent_def Let_def broadcastMessage_def logged_fields addEntry_fields
      membersOf_addEntry)

lemma addUser_fields:
  "clients (addUser room cid w) = clients w"
  "trace (addUser room cid w) = trace w @ [AddUser room cid]"
  "chatrooms (addUser room cid w) =
     mapModify room
       (\<lambda>c. c\<lparr>members := (if cid \<in> set (members c) then members c else members c @ [cid])\<rparr>)
       (chatrooms w)"
  by (simp_all add: addUser_def logged_fields)

lemma removeUser_fields:
  "clients (removeUser room cid w) = clients w"
  "trace (removeUser room cid w) = trace w @ [RemoveUser room cid]"
  "chatrooms (removeUser room cid w) =
     mapModify room (\<lambda>c. c\<lparr>members := removeAll cid (members c)\<rparr>) (chatrooms w)"
  by (simp_all add: removeUser_def logged_fields)

lemma chatroomManager_removeClient_fields:
  "clients (chatroomManager_removeClient cid w) = clients w"
  "trace (chatroomManager_removeClient cid w) = trace w @ [ChatroomsRemoveClient cid]"
  "chatrooms (chatroomManager_removeClient cid w) =
     map (\<lambda>kc. (fst kc, (snd kc)\<lparr>members := removeAll cid (members (snd kc))\<rparr>)) (chatrooms w)"
  by (simp_all add: chatroomManager_removeClient_def logged_fields)

lemma clientManager_removeClient_fields:
  "clients (clientManager_removeClient cid w) = mapDelete cid (clients w)"
  "trace (clientManager_removeClient cid w) = trace w @ [ClientsRemoveClient cid]"
  "chatrooms (clientManager_removeClient cid w) = chatrooms w"
  by (simp_all add: clientManager_removeClient_def logged_fields)

lemma membersOf_after_removal:
  "membersOf (clientManager_removeClient cid (chatroomManager_removeClient cid w)) room =
     removeAll cid (membersOf w room)"
  by (simp add: membersOf_def clientManager_removeClient_fields
      chatroomManager_removeClient_fields
      map_of_map_snd [where f = "\<lambda>c. c\<lparr>members := removeAll cid (members c)\<rparr>"]
      split: option.splits)

lemma memberships_recordEvent:
  "memberships (recordEvent chatroomName createEntry now ctx w) = memberships w"
  by (cases ctx) (simp add: memberships_def recordEvent_fields mapModify_preserves)

lemma memberships_logged: "memberships (logged e w) = memberships w"
  by (simp add: memberships_def logged_fields)

lemma memberships_handleEvent:
  "memberships (snd (handleEvent cid chatroomName createEntry now w)) = memberships w"
  by (simp add: handleEvent_def memberships_recordEvent split: sum.splits)

lemma handleEvent_success:
  assumes "map_of (chatrooms w) room = Some c" "getUserByClientId w cid = Some uname" "uname \<noteq> ''''"
  shows "handleEvent cid (Some room) createEntry now w =
           (Inr room, recordEvent (Some room) createEntry now (room, uname, cid) w)"
proof -
  from assms(1) have "getChatroomByName w (Some room) = Some room"
    by (simp add: getChatroomByName_Some)
  from validation_resolves [OF this assms(2,3)] show ?thesis
    by (simp add: handleEvent_def)
qed

subsection \<open>The event pipeline\<close>

text \<open>
  C1. When the room name resolves to no chatroom, or the registry has no name for the
  connection (or only the empty name, which the truthiness test of \<open>ensureExists\<close> treats
  alike), \<open>handleEvent\<close> fails with the message of the first failed check:
  \<open>Invalid chatroom name: <roomName>\<close> when the room is missing, otherwise
  \<open>Register username to chat.\<close>. The world it leaves is the world it was given: no
  history has a new entry, the trace has no new broadcast.
\<close>

theorem handleEvent_rejection:
  assumes "getChatroomByName w chatroomName = None \<or> getUserByClientId w cid = None \<or>
           getUserByClientId w cid = Some ''''"
  shows "handleEvent cid chatroomName createEntry now w =
           (Inl (if getChatroomByName w chatroomName = None
                 then ''Invalid chatroom name: '' @ templateString chatroomName
                 else ''Register username to chat.''), w)"
proof (cases "getChatroomByName w chatroomName")
  case None
  then show ?thesis
    by (simp add: handleEvent_def validation_rejects_room)
next
  case (Some room)
  with assms have "getUserByClientId w cid = None \<or> getUserByClientId w cid = Some ''''"
    by simp
  with Some show ?thesis
    by (simp add: handleEvent_def validation_rejects_user)
qed

theorem handleEvent_rejection_witness:
  "(getChatroomByName lobby (Some ''ghost'') = None \<or> getUserByClientId lobby ''c1'' = None \<or>
    getUserByClientId lobby ''c1'' = Some '''') \<and>
   handleEvent ''c1'' (Some ''ghost'') (Message (Some ''hello'')) epoch lobby =
     (Inl ''Invalid chatroom name: ghost'', lobby) \<and>
   (getChatroomByName lobby (Some ''general'') = None \<or> getUserByClientId lobby ''c3'' = None \<or>
    getUserByClientId lobby ''c3'' = Some '''') \<and>
   handleEvent ''c3'' (Some ''general'') (Message (Some ''hello'')) epoch lobby =
     (Inl ''Register username to chat.'', lobby)"
proof -
  have ghost: "getChatroomByName lobby (Some ''ghost'') = None"
    by (simp add: getChatroomByName_def lobby_def)
  have general: "getChatroomByName lobby (Some ''general'') = Some ''general''"
    by (simp add: getChatroomByName_def lobby_def)
  have c3: "getUserByClientId lobby ''c3'' = None"
    by (simp add: getUserByClientId_def lobby_def)
  show ?thesis
    using handleEvent_rejection [of lobby "Some ''ghost''" "''c1''"]
      handleEvent_rejection [of lobby "Some ''general''" "''c3''"] ghost general c3
    by (simp add: templateString_def)
qed

text \<open>
  C2. When \<open>handleEvent\<close> succeeds, the world it leaves is the one in which the entry was
  first appended to the room's history and then broadcast: the broadcast is made in a
  world whose history of that room already holds the entry, and the trace grows by the
  append followed by the broadcast of the same entry, and by nothing else.
\<close>

theorem handleEvent_append_before_broadcast:
  assumes "handleEvent cid chatroomName createEntry now w = (Inr room, w')"
  shows "\<exists>uname entry.
           getUserByClientId w cid = Some uname \<and>
           entry = makeEntry cid uname now createEntry \<and>
           w' = broadcastMessage room \<lparr>chat = chatroomName, body = entry\<rparr> (addEntry room entry w) \<and>
           entry \<in> set (getChatHistory (addEntry room entry w) room) \<and>
           trace w' = trace w @ [AddEntry room entry,
                                 BroadcastMessage room (membersOf w room)
                                   \<lparr>chat = chatroomName, body = entry\<rparr>] \<and>
           getChatHistory w' room = getChatHistory w room @ [entry]"
proof -
  from assms obtain ctx where ctx: "ensureValidChatroomAndUser cid chatroomName w = Inr ctx"
    and res: "room = fst ctx" "w' = recordEvent chatroomName createEntry now ctx w"
    by (auto simp add: handleEvent_def split: sum.splits)
  from validation_resolvesD [OF ctx] res(1) obtain uname where
    ctx_eq: "ctx = (room, uname, cid)" and
    room: "getChatroomByName w chatroomName = Some room" and
    user: "getUserByClientId w cid = Some uname"
    by auto
  from room obtain c where c: "map_of (chatrooms w) room = Some c"
    by (auto simp add: getChatroomByName_Some)
  let ?entry = "makeEntry cid uname now createEntry"
  have w': "w' = broadcastMessage room \<lparr>chat = chatroomName, body = ?entry\<rparr> (addEntry room ?entry w)"
    using res(2) ctx_eq by (simp add: recordEvent_def Let_def)
  have present: "?entry \<in> set (getChatHistory (addEntry room ?entry w) room)"
    using c by (simp add: getChatHistory_addEntry)
  have tr: "trace w' = trace w @ [AddEntry room ?entry,
      BroadcastMessage room (membersOf w room) \<lparr>chat = chatroomName, body = ?entry\<rparr>]"
    using res(2) ctx_eq by (simp add: recordEvent_fields)
  have hist: "getChatHistory w' room = getChatHistory w room @ [?entry]"
    using c getChatHistory_addEntry [OF c, of ?entry room]
    by (simp add: w' broadcastMessage_def getChatHistory_def logged_fields)
  from user w' present tr hist show ?thesis by blast
qed

theorem handleEvent_append_before_broadcast_witness:
  "handleEvent ''c2'' (Some ''general'') (Message (Some ''hello'')) epoch lobby =
     (Inr ''general'',
      snd (handleEvent ''c2'' (Some ''general'') (Message (Some ''hello'')) epoch lobby)) \<and>
   trace (snd (handleEvent ''c2'' (Some ''general'') (Message (Some ''hello'')) epoch lobby)) =
     [AddEntry ''general''
        \<lparr>clientId = ''c2'', userName = ''bob'', timestamp = epoch,
         event = None, message = Some ''hello''\<rparr>,
      BroadcastMessage ''general'' [''c1'', ''c2'']
        \<lparr>chat = Some ''general'',
         body = \<lparr>clientId = ''c2'', userName = ''bob'', timestamp = epoch,
                 event = None, message = Some ''hello''\<rparr>\<rparr>]"
proof -
  let ?run = "handleEvent ''c2'' (Some ''general'') (Message (Some ''hello'')) epoch lobby"
  have room: "getChatroomByName lobby (Some ''general'') = Some ''general''"
    by (simp add: getChatroomByName_def lobby_def)
  have user: "getUserByClientId lobby ''c2'' = Some ''bob''"
    by (simp add: getUserByClientId_def lobby_def)
  have "fst ?run = Inr ''general''"
    by (simp add: handleEvent_def validation_resolves [OF room user])
  then have h: "?run = (Inr ''general'', snd ?run)"
    by (simp add: prod_eq_iff)
  have "membersOf lobby ''general'' = [''c1'', ''c2'']" "trace lobby = []"
    by (simp_all add: membersOf_def lobby_def)
  with handleEvent_append_before_broadcast [OF h] user h show ?thesis
    by (auto simp add: makeEntry_def)
qed

subsection \<open>Joining and leaving\<close>

lemma handleJoin_resolved:
  assumes "map_of (chatrooms w) room = Some c"
    and "getUserByClientId w cid = Some uname" and "uname \<noteq> ''''"
  shows "let entry = \<lparr>clientId = cid, userName = uname, timestamp = now,
                      event = Some (''joined '' @ room), message = None\<rparr>;
             w' = handleJoin cid (Some room) now w
         in trace w' = trace w @
              [AddEntry room entry,
               BroadcastMessage room (members c) \<lparr>chat = Some room, body = entry\<rparr>,
               AddUser room cid,
               Callback (History (chatHistory c @ [entry]))] \<and>
            getChatHistory w' room = chatHistory c @ [entry] \<and>
            membersOf w' room = (if cid \<in> set (members c) then members c else members c @ [cid]) \<and>
            clients w' = clients w"
  using assms
  by (simp add: Let_def handleJoin_def handleEvent_success [OF assms] joinedEntry_def
      templateString_def logged_fields addUser_fields recordEvent_fields getChatHistory_def
      membersOf_def map_of_mapModify makeEntry_def)

lemma handleJoin_rejected:
  "ensureValidChatroomAndUser cid chatroomName w = Inl reason \<Longrightarrow>
   handleJoin cid chatroomName now w = logged (Callback (Failure reason)) w"
  by (simp add: handleJoin_def handleEvent_def)

text \<open>
  In the lobby alice is a member of general already. When she joins it again the call
  succeeds, and her own connection is among the targets of the broadcast of her notice: the
  claim C3 as stated, that the joining client is never a target of its own join notice,
  fails here.
\<close>

theorem handleJoin_rejoin_counterexample:
  "last (trace (handleJoin ''c1'' (Some ''general'') epoch lobby)) =
     Callback (History [\<lparr>clientId = ''c1'', userName = ''alice'', timestamp = epoch,
                          event = Some ''joined general'', message = None\<rparr>]) \<and>
   ''c1'' \<in> set (broadcastTargets (trace (handleJoin ''c1'' (Some ''general'') epoch lobby)))"
  by (simp add: handleJoin_def joinedEntry_def addUser_def getChatHistory_def
      broadcastTargets_def handleEvent_def ensureValidChatroomAndUser_def ensureValidChatroom_def
      ensureUser_def ensureExists_def truthyString_def truthyObject_def templateString_def
      getChatroomByName_def getUserByClientId_def recordEvent_def makeEntry_def addEntry_def
      broadcastMessage_def logged_def membersOf_def Let_def lobby_def)

text \<open>
  C3, amended. When \<open>handleJoin\<close> succeeds, that is when its last act is to call back with
  a history \<open>h\<close>, the room exists and the connection has a non-empty registered name, and
  the call did four things in this order: it appended the entry \<open>joined <roomName>\<close>,
  broadcast it to the members the room had before the call, added the connection to the
  members, and returned the history, which ends with the entry. The joining connection is
  among the targets of its own notice exactly when it was a member already.
\<close>

theorem handleJoin_success:
  assumes "last (trace (handleJoin cid chatroomName now w)) = Callback (History h)"
  shows "\<exists>room c uname.
           chatroomName = Some room \<and> map_of (chatrooms w) room = Some c \<and>
           getUserByClientId w cid = Some uname \<and> uname \<noteq> '''' \<and>
           (let entry = \<lparr>clientId = cid, userName = uname, timestamp = now,
                         event = Some (''joined '' @ room), message = None\<rparr>;
                w' = handleJoin cid chatroomName now w
            in trace w' = trace w @
                 [AddEntry room entry,
                  BroadcastMessage room (members c) \<lparr>chat = Some room, body = entry\<rparr>,
                  AddUser room cid,
                  Callback (History (chatHistory c @ [entry]))] \<and>
               h = chatHistory c @ [entry] \<and> entry \<in> set h \<and>
               (cid \<in> set (broadcastTargets (drop (length (trace w)) (trace w'))) \<longleftrightarrow>
                  cid \<in> set (members c)) \<and>
               cid \<in> set (membersOf w' room))"
proof (cases "ensureValidChatroomAndUser cid chatroomName w")
  case (Inl reason)
  from handleJoin_rejected [OF this] assms show ?thesis
    by (simp add: logged_fields)
next
  case (Inr ctx)
  from validation_resolvesD [OF this] obtain room uname where
    room: "getChatroomByName w chatroomName = Some room" and
    user: "getUserByClientId w cid = Some uname" "uname \<noteq> ''''"
    by blast
  from room obtain c where name: "chatroomName = Some room"
    and c: "map_of (chatrooms w) room = Some c"
    by (auto simp add: getChatroomByName_Some)
  let ?entry = "\<lparr>clientId = cid, userName = uname, timestamp = now,
                  event = Some (''joined '' @ room), message = None\<rparr>"
  let ?w' = "handleJoin cid chatroomName now w"
  from handleJoin_resolved [OF c user, of now]
  have tr: "trace ?w' = trace w @
      [AddEntry room ?entry,
       BroadcastMessage room (members c) \<lparr>chat = Some room, body = ?entry\<rparr>,
       AddUser room cid,
       Callback (History (chatHistory c @ [?entry]))]"
    and mem: "membersOf ?w' room =
      (if cid \<in> set (members c) then members c else members c @ [cid])"
    unfolding Let_def name by blast+
  from assms have h: "h = chatHistory c @ [?entry]"
    unfolding tr by simp
  have targets: "broadcastTargets (drop (length (trace w)) (trace ?w')) = members c"
    unfolding tr by (simp add: broadcastTargets_def)
  have joined: "cid \<in> set (membersOf ?w' room)"
    unfolding mem by simp
  have "let entry = ?entry; w' = ?w'
        in trace w' = trace w @
             [AddEntry room entry,
              BroadcastMessage room (members c) \<lparr>chat = Some room, body = entry\<rparr>,
              AddUser room cid,
              Callback (History (chatHistory c @ [entry]))] \<and>
           h = chatHistory c @ [entry] \<and> entry \<in> set h \<and>
           (cid \<in> set (broadcastTargets (drop (length (trace w)) (trace w'))) \<longleftrightarrow>
              cid \<in> set (members c)) \<and>
           cid \<in> set (membersOf w' room)"
    unfolding Let_def using tr h targets joined by simp
  with name c user show ?thesis by blast
qed

theorem handleJoin_success_witness:
  "last (trace (handleJoin ''c2'' (Some ''random'') epoch lobby)) =
     Callback (History [\<lparr>clientId = ''c2'', userName = ''bob'', timestamp = epoch,
                          event = Some ''joined random'', message = None\<rparr>]) \<and>
   ''c2'' \<notin> set (broadcastTargets (drop (length (trace lobby))
                     (trace (handleJoin ''c2'' (Some ''random'') epoch lobby)))) \<and>
   ''c2'' \<in> set (membersOf (handleJoin ''c2'' (Some ''random'') epoch lobby) ''random'')"
proof -
  have h: "last (trace (handleJoin ''c2'' (Some ''random'') epoch lobby)) =
     Callback (History [\<lparr>clientId = ''c2'', userName = ''bob'', timestamp = epoch,
                          event = Some ''joined random'', message = None\<rparr>])"
    by (simp add: handleJoin_def joinedEntry_def addUser_def getChatHistory_def
        handleEvent_def ensureValidChatroomAndUser_def ensureValidChatroom_def
        ensureUser_def ensureExists_def truthyString_def truthyObject_def templateString_def
        getChatroomByName_def getUserByClientId_def recordEvent_def makeEntry_def addEntry_def
        broadcastMessage_def logged_def membersOf_def Let_def lobby_def)
  have room: "map_of (chatrooms lobby) ''random'' = Some \<lparr>members = [''c1''], chatHistory = []\<rparr>"
    by (simp add: lobby_def)
  from handleJoin_success [OF h] room h show ?thesis
    by (auto simp add: Let_def)
qed

text \<open>
  For a connection registered under a non-empty name and an existing room, whether or not
  the connection is a member of it, \<open>handleLeave\<close> appends the entry \<open>left <roomName>\<close>,
  broadcasts it to the members the room had before the call, then removes the connection
  from the members, and calls back without an error.
\<close>

lemma handleLeave_records_then_removes:
  assumes "map_of (chatrooms w) room = Some c"
    and "getUserByClientId w cid = Some uname" and "uname \<noteq> ''''"
  shows "let entry = \<lparr>clientId = cid, userName = uname, timestamp = now,
                      event = Some (''left '' @ room), message = None\<rparr>;
             w' = handleLeave cid (Some room) now w
         in trace w' = trace w @
              [AddEntry room entry,
               BroadcastMessage room (members c) \<lparr>chat = Some room, body = entry\<rparr>,
               RemoveUser room cid,
               Callback Done] \<and>
            getChatHistory w' room = chatHistory c @ [entry] \<and>
            membersOf w' room = removeAll cid (members c) \<and>
            clients w' = clients w"
  using assms
  by (simp add: Let_def handleLeave_def handleEvent_success [OF assms] leftEntry_def
      templateString_def logged_fields removeUser_fields recordEvent_fields getChatHistory_def
      membersOf_def map_of_mapModify makeEntry_def)

text \<open>Bob leaves the room random, which he never joined.\<close>

lemma handleLeave_never_joined_example:
  "trace (handleLeave ''c2'' (Some ''random'') epoch lobby) =
     [AddEntry ''random''
        \<lparr>clientId = ''c2'', userName = ''bob'', timestamp = epoch,
         event = Some ''left random'', message = None\<rparr>,
      BroadcastMessage ''random'' [''c1'']
        \<lparr>chat = Some ''random'',
         body = \<lparr>clientId = ''c2'', userName = ''bob'', timestamp = epoch,
                 event = Some ''left random'', message = None\<rparr>\<rparr>,
      RemoveUser ''random'' ''c2'',
      Callback Done] \<and>
   membersOf (handleLeave ''c2'' (Some ''random'') epoch lobby) ''random'' = [''c1'']"
proof -
  have room: "map_of (chatrooms lobby) ''random'' = Some \<lparr>members = [''c1''], chatHistory = []\<rparr>"
    by (simp add: lobby_def)
  have user: "getUserByClientId lobby ''c2'' = Some ''bob''"
    by (simp add: getUserByClientId_def lobby_def)
  have name: "''bob'' \<noteq> ''''" by simp
  have "trace lobby = []" by (simp add: lobby_def)
  with handleLeave_records_then_removes [OF room user name, of epoch] show ?thesis
    by (simp add: Let_def)
qed

text \<open>
  A connection that the registry binds to the empty name is turned away, on any existing
  room: the callback receives \<open>Register username to chat.\<close> and nothing else happens.
\<close>

lemma handleLeave_empty_name:
  assumes "map_of (chatrooms w) room = Some c" and "getUserByClientId w cid = Some ''''"
  shows "handleLeave cid (Some room) now w =
           logged (Callback (Failure ''Register username to chat.'')) w"
proof -
  from assms(1) have "getChatroomByName w (Some room) = Some room"
    by (simp add: getChatroomByName_Some)
  from validation_rejects_user [OF this] assms(2) show ?thesis
    by (simp add: handleLeave_def handleEvent_def)
qed

text \<open>
  C6. The connection \<open>''c3''\<close> registers the empty string as its name, which is available,
  and is answered with its identity: it is registered. When it then leaves the existing
  room general, \<open>ensureExists\<close> tests the truthiness of the name that the registry returns
  and takes the empty name for no name. The callback receives
  \<open>Register username to chat.\<close>, and the entry \<open>left general\<close> that the claim promises is
  neither recorded nor broadcast.
\<close>

theorem handleLeave_empty_name_rejected:
  "handleLeave ''c3'' (Some ''general'') epoch (handleRegister ''c3'' '''' lobby) =
     lobby\<lparr>clients := [(''c1'', ''alice''), (''c2'', ''bob''), (''c3'', '''')],
           trace := [RegisterClient ''c3'' '''', Callback (Registered ''c3'' ''''),
                     Callback (Failure ''Register username to chat.'')]\<rparr>"
  by (simp add: handleLeave_def leftEntry_def handleRegister_def isUserAvailable_def
      registerClient_def handleEvent_def ensureValidChatroomAndUser_def ensureValidChatroom_def
      ensureUser_def ensureExists_def truthyString_def truthyObject_def templateString_def
      getChatroomByName_def getUserByClientId_def recordEvent_def makeEntry_def addEntry_def
      broadcastMessage_def logged_def membersOf_def Let_def lobby_def)

subsection \<open>Messages\<close>

lemma recordEvent_world:
  "recordEvent chatroomName createEntry now (room, uname, cid) w =
     w\<lparr>chatrooms :=
          mapModify room
            (\<lambda>c. c\<lparr>chatHistory := chatHistory c @ [makeEntry cid uname now createEntry]\<rparr>)
            (chatrooms w),
       trace := trace w @
         [AddEntry room (makeEntry cid uname now createEntry),
          BroadcastMessage room (membersOf w room)
            \<lparr>chat = chatroomName, body = makeEntry cid uname now createEntry\<rparr>]\<rparr>"
  by (rule world.equality) (simp_all add: recordEvent_fields)

lemma memberships_handleMessage:
  "memberships (snd (handleMessage cid payload callback now w)) = memberships w"
proof -
  let ?p = "payloadOrDefault payload"
  let ?ev = "handleEvent cid (msg_chatroomName ?p) (Message (msg_message ?p)) now w"
  have "snd (handleMessage cid payload callback now w) = snd ?ev \<or>
        (\<exists>r. snd (handleMessage cid payload callback now w) = logged (Callback r) (snd ?ev))"
    by (cases ?ev; cases callback) (auto simp add: handleMessage_def Let_def split: sum.splits)
  then show ?thesis
    by (auto simp add: memberships_logged memberships_handleEvent)
qed

lemma handleMessage_resolved:
  assumes "msg_chatroomName (payloadOrDefault payload) = Some room"
    and "map_of (chatrooms w) room = Some c"
    and "getUserByClientId w cid = Some uname" and "uname \<noteq> ''''"
  shows "handleMessage cid payload callback now w =
           (case callback of None \<Rightarrow> Inl (Thrown TypeError) | Some f \<Rightarrow> Inr (),
            w\<lparr>chatrooms :=
                 mapModify room
                   (\<lambda>c. c\<lparr>chatHistory := chatHistory c @
                      [\<lparr>clientId = cid, userName = uname, timestamp = now, event = None,
                        message = msg_message (payloadOrDefault payload)\<rparr>]\<rparr>)
                   (chatrooms w),
              trace := trace w @
                [AddEntry room
                   \<lparr>clientId = cid, userName = uname, timestamp = now, event = None,
                    message = msg_message (payloadOrDefault payload)\<rparr>,
                 BroadcastMessage room (members c)
                   \<lparr>chat = Some room,
                    body = \<lparr>clientId = cid, userName = uname, timestamp = now, event = None,
                            message = msg_message (payloadOrDefault payload)\<rparr>\<rparr>] @
                (case callback of None \<Rightarrow> [] | Some f \<Rightarrow> [Callback Done])\<rparr>)"
proof -
  let ?p = "payloadOrDefault payload"
  have ev: "handleEvent cid (msg_chatroomName ?p) (Message (msg_message ?p)) now w =
      (Inr room, recordEvent (Some room) (Message (msg_message ?p)) now (room, uname, cid) w)"
    unfolding assms(1) by (rule handleEvent_success [OF assms(2,3,4)])
  have targets: "membersOf w room = members c"
    using assms(2) by (simp add: membersOf_def)
  show ?thesis
    by (cases callback)
      (simp_all add: handleMessage_def Let_def ev recordEvent_world makeEntry_def targets
        logged_def)
qed

lemma handleMessage_rejected:
  assumes "ensureValidChatroomAndUser cid (msg_chatroomName (payloadOrDefault payload)) w =
           Inl reason"
  shows "handleMessage cid payload callback now w =
           (case callback of
              None \<Rightarrow> (Inl (Reason reason), w)
            | Some f \<Rightarrow> (Inr (), w\<lparr>trace := trace w @ [Callback (Failure reason)]\<rparr>))"
  using assms
  by (cases callback) (simp_all add: handleMessage_def Let_def handleEvent_def logged_def)

text \<open>
  C7. \<open>handleMessage\<close> leaves the member list of every room as it was, whether the call
  succeeds or fails, with or without a callback. When the payload names an existing room
  and the connection has a non-empty registered name, the world it leaves is the given one
  with the entry whose payload is the message appended to the history of that room, and
  with the append and the broadcast of the entry to the room's members (and the callback,
  if there is one) added to the trace. When the validation fails, nothing changes but the
  trace of the callback that receives the reason.
\<close>

theorem handleMessage_keeps_members:
  "memberships (snd (handleMessage cid payload callback now w)) = memberships w \<and>
   (\<forall>room c uname.
      msg_chatroomName (payloadOrDefault payload) = Some room \<and>
      map_of (chatrooms w) room = Some c \<and>
      getUserByClientId w cid = Some uname \<and> uname \<noteq> '''' \<longrightarrow>
      (let entry = \<lparr>clientId = cid, userName = uname, timestamp = now, event = None,
                    message = msg_message (payloadOrDefault payload)\<rparr>
       in handleMessage cid payload callback now w =
            (case callback of None \<Rightarrow> Inl (Thrown TypeError) | Some f \<Rightarrow> Inr (),
             w\<lparr>chatrooms :=
                  mapModify room (\<lambda>c. c\<lparr>chatHistory := chatHistory c @ [entry]\<rparr>) (chatrooms w),
               trace := trace w @
                 [AddEntry room entry,
                  BroadcastMessage room (members c) \<lparr>chat = Some room, body = entry\<rparr>] @
                 (case callback of None \<Rightarrow> [] | Some f \<Rightarrow> [Callback Done])\<rparr>) \<and>
          getChatHistory (snd (handleMessage cid payload callback now w)) room =
            chatHistory c @ [entry])) \<and>
   (\<forall>reason.
      ensureValidChatroomAndUser cid (msg_chatroomName (payloadOrDefault payload)) w =
        Inl reason \<longrightarrow>
      handleMessage cid payload callback now w =
        (case callback of
           None \<Rightarrow> (Inl (Reason reason), w)
         | Some f \<Rightarrow> (Inr (), w\<lparr>trace := trace w @ [Callback (Failure reason)]\<rparr>)))"
proof (intro conjI allI impI)
  show "memberships (snd (handleMessage cid payload callback now w)) = memberships w"
    by (rule memberships_handleMessage)
next
  fix room c uname
  assume a: "msg_chatroomName (payloadOrDefault payload) = Some room \<and>
      map_of (chatrooms w) room = Some c \<and>
      getUserByClientId w cid = Some uname \<and> uname \<noteq> ''''"
  then have run: "handleMessage cid payload callback now w =
      (case callback of None \<Rightarrow> Inl (Thrown TypeError) | Some f \<Rightarrow> Inr (),
       w\<lparr>chatrooms :=
            mapModify room
              (\<lambda>c. c\<lparr>chatHistory := chatHistory c @
                 [\<lparr>clientId = cid, userName = uname, timestamp = now, event = None,
                   message = msg_message (payloadOrDefault payload)\<rparr>]\<rparr>)
              (chatrooms w),
         trace := trace w @
           [AddEntry room
              \<lparr>clientId = cid, userName = uname, timestamp = now, event = None,
               message = msg_message (payloadOrDefault payload)\<rparr>,
            BroadcastMessage room (members c)
              \<lparr>chat = Some room,
               body = \<lparr>clientId = cid, userName = uname, timestamp = now, event = None,
                       message = msg_message (payloadOrDefault payload)\<rparr>\<rparr>] @
           (case callback of None \<Rightarrow> [] | Some f \<Rightarrow> [Callback Done])\<rparr>)"
    by (intro handleMessage_resolved) simp_all
  from a have hist: "getChatHistory (snd (handleMessage cid payload callback now w)) room =
      chatHistory c @ [\<lparr>clientId = cid, userName = uname, timestamp = now, event = None,
                         message = msg_message (payloadOrDefault payload)\<rparr>]"
    unfolding run by (simp add: getChatHistory_def map_of_mapModify)
  from run hist
  show "let entry = \<lparr>clientId = cid, userName = uname, timestamp = now, event = None,
                     message = msg_message (payloadOrDefault payload)\<rparr>
        in handleMessage cid payload callback now w =
             (case callback of None \<Rightarrow> Inl (Thrown TypeError) | Some f \<Rightarrow> Inr (),
              w\<lparr>chatrooms :=
                   mapModify room (\<lambda>c. c\<lparr>chatHistory := chatHistory c @ [entry]\<rparr>) (chatrooms w),
                trace := trace w @
                  [AddEntry room entry,
                   BroadcastMessage room (members c) \<lparr>chat = Some room, body = entry\<rparr>] @
                  (case callback of None \<Rightarrow> [] | Some f \<Rightarrow> [Callback Done])\<rparr>) \<and>
           getChatHistory (snd (handleMessage cid payload callback now w)) room =
             chatHistory c @ [entry]"
    unfolding Let_def by (rule conjI)
next
  fix reason
  assume "ensureValidChatroomAndUser cid (msg_chatroomName (payloadOrDefault payload)) w =
      Inl reason"
  then show "handleMessage cid payload callback now w =
      (case callback of
         None \<Rightarrow> (Inl (Reason reason), w)
       | Some f \<Rightarrow> (Inr (), w\<lparr>trace := trace w @ [Callback (Failure reason)]\<rparr>))"
    by (rule handleMessage_rejected)
qed

theorem handleMessage_keeps_members_witness:
  "memberships (snd (handleMessage ''c2''
      (Some \<lparr>msg_chatroomName = Some ''general'', msg_message = Some ''hello''\<rparr>) (Some Ack)
      epoch lobby)) =
     [(''general'', [''c1'', ''c2'']), (''random'', [''c1''])] \<and>
   handleMessage ''c2''
      (Some \<lparr>msg_chatroomName = Some ''general'', msg_message = Some ''hello''\<rparr>) (Some Ack)
      epoch lobby =
     (Inr (),
      \<lparr>clients = [(''c1'', ''alice''), (''c2'', ''bob'')],
       chatrooms =
         [(''general'',
           \<lparr>members = [''c1'', ''c2''],
            chatHistory = [\<lparr>clientId = ''c2'', userName = ''bob'', timestamp = epoch,
                            event = None, message = Some ''hello''\<rparr>]\<rparr>),
          (''random'', \<lparr>members = [''c1''], chatHistory = []\<rparr>)],
       trace =
         [AddEntry ''general''
            \<lparr>clientId = ''c2'', userName = ''bob'', timestamp = epoch,
             event = None, message = Some ''hello''\<rparr>,
          BroadcastMessage ''general'' [''c1'', ''c2'']
            \<lparr>chat = Some ''general'',
             body = \<lparr>clientId = ''c2'', userName = ''bob'', timestamp = epoch,
                     event = None, message = Some ''hello''\<rparr>\<rparr>,
          Callback Done]\<rparr>) \<and>
   handleMessage ''c3''
      (Some \<lparr>msg_chatroomName = Some ''general'', msg_message = Some ''hello''\<rparr>) (Some Ack)
      epoch lobby =
     (Inr (), lobby\<lparr>trace := [Callback (Failure ''Register username to chat.'')]\<rparr>)"
proof -
  let ?p = "Some \<lparr>msg_chatroomName = Some ''general'', msg_message = Some ''hello''\<rparr>"
  have name: "msg_chatroomName (payloadOrDefault ?p) = Some ''general''"
    "msg_message (payloadOrDefault ?p) = Some ''hello''"
    by (simp_all add: payloadOrDefault_def)
  have room: "map_of (chatrooms lobby) ''general'' =
      Some \<lparr>members = [''c1'', ''c2''], chatHistory = []\<rparr>"
    by (simp add: lobby_def)
  have user: "getUserByClientId lobby ''c2'' = Some ''bob''"
    by (simp add: getUserByClientId_def lobby_def)
  have c3: "ensureValidChatroomAndUser ''c3'' (Some ''general'') lobby =
      Inl ''Register username to chat.''"
    by (rule validation_rejects_user [where room = "''general''"])
      (simp_all add: getChatroomByName_def getUserByClientId_def lobby_def)
  have before: "memberships lobby = [(''general'', [''c1'', ''c2'']), (''random'', [''c1''])]"
    by (simp add: memberships_def lobby_def)
  have fields: "clients lobby = [(''c1'', ''alice''), (''c2'', ''bob'')]"
    "chatrooms lobby = [(''general'', \<lparr>members = [''c1'', ''c2''], chatHistory = []\<rparr>),
                         (''random'', \<lparr>members = [''c1''], chatHistory = []\<rparr>)]"
    "trace lobby = []"
    by (simp_all add: lobby_def)
  have eq: "\<And>(v::world) cs rs tr.
      clients v = cs \<Longrightarrow> chatrooms v = rs \<Longrightarrow> trace v = tr \<Longrightarrow>
      v = \<lparr>clients = cs, chatrooms = rs, trace = tr\<rparr>"
    by auto
  from handleMessage_keeps_members [of "''c2''" ?p "Some Ack" epoch lobby] name room user before
  have c2_run: "memberships (snd (handleMessage ''c2'' ?p (Some Ack) epoch lobby)) =
      [(''general'', [''c1'', ''c2'']), (''random'', [''c1''])] \<and>
    handleMessage ''c2'' ?p (Some Ack) epoch lobby =
     (Inr (),
      \<lparr>clients = [(''c1'', ''alice''), (''c2'', ''bob'')],
       chatrooms =
         [(''general'',
           \<lparr>members = [''c1'', ''c2''],
            chatHistory = [\<lparr>clientId = ''c2'', userName = ''bob'', timestamp = epoch,
                            event = None, message = Some ''hello''\<rparr>]\<rparr>),
          (''random'', \<lparr>members = [''c1''], chatHistory = []\<rparr>)],
       trace =
         [AddEntry ''general''
            \<lparr>clientId = ''c2'', userName = ''bob'', timestamp = epoch,
             event = None, message = Some ''hello''\<rparr>,
          BroadcastMessage ''general'' [''c1'', ''c2'']
            \<lparr>chat = Some ''general'',
             body = \<lparr>clientId = ''c2'', userName = ''bob'', timestamp = epoch,
                     event = None, message = Some ''hello''\<rparr>\<rparr>,
          Callback Done]\<rparr>)"
    by (simp add: Let_def fields eq memberships_def)
  from handleMessage_keeps_members [of "''c3''" ?p "Some Ack" epoch lobby] name c3 fields
  have c3_run: "handleMessage ''c3'' ?p (Some Ack) epoch lobby =
      (Inr (), lobby\<lparr>trace := [Callback (Failure ''Register username to chat.'')]\<rparr>)"
    by simp
  from c2_run c3_run show ?thesis by blast
qed

text \<open>
  C9. Called with an \<open>undefined\<close> payload, with a callback or with no argument at all,
  \<open>handleMessage\<close> does not throw: the room name is \<open>undefined\<close>, the chatroom check fails
  first, and the call is rejected with \<open>Invalid chatroom name: undefined\<close>, which the
  callback receives when there is one and with which the returned promise is rejected
  when there is none. Registry, rooms and histories are as before.
\<close>

theorem handleMessage_undefined_payload:
  "handleMessage cid None callback now w =
     (case callback of
        None \<Rightarrow> (Inl (Reason ''Invalid chatroom name: undefined''), w)
      | Some f \<Rightarrow>
          (Inr (), w\<lparr>trace := trace w @
                      [Callback (Failure ''Invalid chatroom name: undefined'')]\<rparr>))"
proof -
  have "ensureValidChatroomAndUser cid (msg_chatroomName (payloadOrDefault None)) w =
      Inl ''Invalid chatroom name: undefined''"
    by (simp add: payloadOrDefault_def validation_rejects_room getChatroomByName_def
        templateString_def)
  from handleMessage_rejected [OF this] show ?thesis .
qed

theorem handleMessage_undefined_payload_witness:
  "handleMessage ''c3'' None None epoch lobby =
     (Inl (Reason ''Invalid chatroom name: undefined''), lobby) \<and>
   handleMessage ''c3'' None (Some Ack) epoch lobby =
     (Inr (), lobby\<lparr>trace := [Callback (Failure ''Invalid chatroom name: undefined'')]\<rparr>)"
  using handleMessage_undefined_payload [of "''c3''" None epoch lobby]
    handleMessage_undefined_payload [of "''c3''" "Some Ack" epoch lobby]
  by (simp add: lobby_def)

subsection \<open>Registration\<close>

text \<open>
  C5. \<open>handleRegister\<close> either calls back with \<open>Username <name> not available\<close> and
  changes nothing else, or binds the name to the connection and calls back with the
  connection id and the name. In both cases the rooms, hence all histories, are as before,
  and the trace gains no broadcast.
\<close>

theorem handleRegister_outcome:
  "handleRegister cid uname w =
     (if isUserAvailable w uname
      then w\<lparr>clients := mapSet cid uname (clients w),
             trace := trace w @ [RegisterClient cid uname, Callback (Registered cid uname)]\<rparr>
      else w\<lparr>trace := trace w @ [Callback (Failure (''Username '' @ uname @ '' not available''))]\<rparr>) \<and>
   chatrooms (handleRegister cid uname w) = chatrooms w \<and>
   getUserByClientId (handleRegister cid uname w) cid =
     (if isUserAvailable w uname then Some uname else getUserByClientId w cid)"
  by (simp add: handleRegister_def registerClient_def logged_def getUserByClientId_def
      map_of_mapSet)

theorem handleRegister_outcome_witness:
  "handleRegister ''c3'' ''carol'' lobby =
     lobby\<lparr>clients := [(''c1'', ''alice''), (''c2'', ''bob''), (''c3'', ''carol'')],
           trace := [RegisterClient ''c3'' ''carol'', Callback (Registered ''c3'' ''carol'')]\<rparr> \<and>
   handleRegister ''c3'' ''bob'' lobby =
     lobby\<lparr>trace := [Callback (Failure ''Username bob not available'')]\<rparr>"
  using handleRegister_outcome [of "''c3''" "''carol''" lobby]
    handleRegister_outcome [of "''c3''" "''bob''" lobby]
  by (simp add: isUserAvailable_def lobby_def)

subsection \<open>Listing and creating rooms\<close>

lemma matchesFilter_cases:
  "matchesFilter None = (\<lambda>c. True)"
  "matchesFilter (Some '''') = (\<lambda>c. True)"
  "f \<noteq> '''' \<Longrightarrow> matchesFilter (Some f) = (\<lambda>c. name c = f)"
  by (simp_all add: fun_eq_iff matchesFilter_def truthyString_def)

text \<open>
  With the empty string as filter the handler returns every room, not the rooms whose name
  equals the filter (there is none): the claim C8 as stated, exact match for every filter,
  fails here.
\<close>

theorem handleGetChatrooms_empty_filter_counterexample:
  "handleGetChatrooms (Some \<lparr>chatroomNameFilter = Some ''''\<rparr>) lobby =
     Inr (lobby\<lparr>trace := [Callback (Chatrooms
            [\<lparr>name = ''general'', memberCount = 2, historyLength = 0\<rparr>,
             \<lparr>name = ''random'', memberCount = 1, historyLength = 0\<rparr>])]\<rparr>)"
  by (simp add: handleGetChatrooms_def matchesFilter_def truthyString_def
      serializeChatrooms_def serialize_def logged_def lobby_def)

text \<open>
  C8, amended. Called with a payload object, \<open>handleGetChatrooms\<close> calls back without an
  error: with all room summaries when the payload has no filter or the empty string as
  filter, and with exactly the summaries whose name equals a non-empty filter. It reads no
  registration and changes nothing but the trace.
\<close>

theorem handleGetChatrooms_filter:
  "handleGetChatrooms (Some p) w =
     Inr (w\<lparr>trace := trace w @
              [Callback (Chatrooms
                 (case chatroomNameFilter p of
                    None \<Rightarrow> serializeChatrooms w
                  | Some f \<Rightarrow>
                      if f = '''' then serializeChatrooms w
                      else filter (\<lambda>c. name c = f) (serializeChatrooms w)))]\<rparr>)"
  by (simp add: handleGetChatrooms_def logged_def matchesFilter_cases split: option.splits)

theorem handleGetChatrooms_filter_witness:
  "handleGetChatrooms (Some \<lparr>chatroomNameFilter = Some ''random''\<rparr>) lobby =
     Inr (lobby\<lparr>trace := [Callback (Chatrooms
            [\<lparr>name = ''random'', memberCount = 1, historyLength = 0\<rparr>])]\<rparr>) \<and>
   handleGetChatrooms (Some \<lparr>chatroomNameFilter = None\<rparr>) lobby =
     Inr (lobby\<lparr>trace := [Callback (Chatrooms
            [\<lparr>name = ''general'', memberCount = 2, historyLength = 0\<rparr>,
             \<lparr>name = ''random'', memberCount = 1, historyLength = 0\<rparr>])]\<rparr>)"
  using handleGetChatrooms_filter [of "\<lparr>chatroomNameFilter = Some ''random''\<rparr>" lobby]
    handleGetChatrooms_filter [of "\<lparr>chatroomNameFilter = None\<rparr>" lobby]
  by (simp add: serializeChatrooms_def serialize_def lobby_def)

text \<open>
  C10. \<open>handleCreateChatroom\<close> returns the world it was given: registry, rooms and trace
  are unchanged, so no callback was made.
\<close>

theorem handleCreateChatroom_noop:
  "handleCreateChatroom chatroomName w = w"
  by (simp add: handleCreateChatroom_def)

theorem handleCreateChatroom_noop_witness:
  "handleCreateChatroom (Some ''lounge'') lobby = lobby"
  using handleCreateChatroom_noop [of "Some ''lounge''" lobby] by simp

subsection \<open>Disconnecting\<close>

lemma foldl_leftStep_clients:
  "clients (foldl (leftStep cid uname clock) v rooms) = clients v"
  by (induction rooms arbitrary: v) (simp_all add: recordEvent_fields)

lemma foldl_leftStep_memberships:
  "memberships (foldl (leftStep cid uname clock) v rooms) = memberships v"
  by (induction rooms arbitrary: v) (simp_all add: memberships_recordEvent)

lemma foldl_leftStep_trace:
  "trace (foldl (leftStep cid uname clock) v rooms) =
     trace v @ concat (map (\<lambda>room.
       [AddEntry room (makeEntry cid uname (clock room) (leftEntry (Some room))),
        BroadcastMessage room (membersOf v room)
          \<lparr>chat = Some room,
           body = makeEntry cid uname (clock room) (leftEntry (Some room))\<rparr>]) rooms)"
proof (induction rooms arbitrary: v)
  case Nil
  then show ?case by simp
next
  case (Cons r rooms)
  have "\<And>room. membersOf (leftStep cid uname clock v r) room = membersOf v room"
    by (simp add: membersOf_memberships memberships_recordEvent)
  then show ?case
    by (simp add: Cons.IH recordEvent_fields)
qed

lemma foldl_leftStep_chatrooms:
  "distinct (map fst (chatrooms v)) \<Longrightarrow>
   chatrooms (foldl (leftStep cid uname clock) v rooms) =
     map (\<lambda>kc. (fst kc,
                (snd kc)\<lparr>chatHistory := chatHistory (snd kc) @
                   map (\<lambda>room. makeEntry cid uname (clock room) (leftEntry (Some room)))
                     (filter (\<lambda>r. r = fst kc) rooms)\<rparr>))
         (chatrooms v)"
proof (induction rooms arbitrary: v)
  case Nil
  then show ?case by (simp add: map_idI)
next
  case (Cons r rooms)
  let ?v1 = "leftStep cid uname clock v r"
  have keys: "distinct (map fst (chatrooms ?v1))"
    using Cons.prems by (simp add: recordEvent_fields map_fst_mapModify)
  have v1: "chatrooms ?v1 =
      map (\<lambda>kv. if fst kv = r
                 then (fst kv, (snd kv)\<lparr>chatHistory := chatHistory (snd kv) @
                        [makeEntry cid uname (clock r) (leftEntry (Some r))]\<rparr>)
                 else kv) (chatrooms v)"
    using Cons.prems by (simp add: recordEvent_fields mapModify_distinct)
  show ?case
    by (simp add: Cons.IH [OF keys] v1 o_def)
qed

lemma foldl_leaveReaction_resolved:
  assumes "getUserByClientId w cid = Some uname" "uname \<noteq> ''''"
  shows "\<forall>room \<in> set rooms. \<exists>c. map_of (chatrooms w) room = Some c \<Longrightarrow>
         foldl (leaveReaction clock) v
           (map (\<lambda>room. (room, ensureValidChatroomAndUser cid (Some room) w)) rooms) =
         foldl (leftStep cid uname clock) v rooms"
proof (induction rooms arbitrary: v)
  case Nil
  then show ?case by simp
next
  case (Cons r rooms)
  then have "getChatroomByName w (Some r) = Some r"
    by (auto simp add: getChatroomByName_Some)
  from validation_resolves [OF this assms] Cons show ?case
    by (simp add: leaveReaction_def)
qed

lemma foldl_leaveReaction_rejected:
  assumes "getUserByClientId w cid = None \<or> getUserByClientId w cid = Some ''''"
  shows "\<forall>room \<in> set rooms. \<exists>c. map_of (chatrooms w) room = Some c \<Longrightarrow>
         foldl (leaveReaction clock) v
           (map (\<lambda>room. (room, ensureValidChatroomAndUser cid (Some room) w)) rooms) =
         v\<lparr>trace := trace v @
               map (\<lambda>room. UnhandledRejection ''Register username to chat.'') rooms\<rparr>"
proof (induction rooms arbitrary: v)
  case Nil
  then show ?case by simp
next
  case (Cons r rooms)
  then have "getChatroomByName w (Some r) = Some r"
    by (auto simp add: getChatroomByName_Some)
  from validation_rejects_user [OF this assms] Cons show ?case
    by (simp add: leaveReaction_def logged_def)
qed

lemma getChatroomsByClientId_present:
  "room \<in> set (getChatroomsByClientId w cid) \<Longrightarrow> \<exists>c. map_of (chatrooms w) room = Some c"
proof -
  assume "room \<in> set (getChatroomsByClientId w cid)"
  then have "room \<in> fst ` set (chatrooms w)"
    by (auto simp add: getChatroomsByClientId_def)
  then show ?thesis
    by (cases "map_of (chatrooms w) room") (auto simp add: map_of_eq_None_iff)
qed

lemma handleDisconnect_unfold:
  "handleDisconnect cid clock w =
     foldl (leaveReaction clock)
       (clientManager_removeClient cid (chatroomManager_removeClient cid w))
       (map (\<lambda>room. (room, ensureValidChatroomAndUser cid (Some room) w))
          (getChatroomsByClientId w cid))"
  by (simp add: handleDisconnect_def Let_def)

text \<open>
  No handler adds, removes or renames a room: a store whose room names are distinct
  keeps them distinct whatever the handlers do.
\<close>

lemma room_names_recordEvent:
  "map fst (chatrooms (recordEvent chatroomName createEntry now ctx w)) = map fst (chatrooms w)"
  by (cases ctx) (simp add: recordEvent_fields map_fst_mapModify)

lemma room_names_handleEvent:
  "map fst (chatrooms (snd (handleEvent cid chatroomName createEntry now w))) =
     map fst (chatrooms w)"
  by (simp add: handleEvent_def room_names_recordEvent split: sum.splits)

lemma room_names_leaveReactions:
  "map fst (chatrooms (foldl (leaveReaction clock) v validations)) = map fst (chatrooms v)"
  by (induction validations arbitrary: v)
    (auto simp add: leaveReaction_def room_names_recordEvent logged_fields split: sum.splits)

lemma room_names_kept:
  "map fst (chatrooms (handleRegister cid uname w)) = map fst (chatrooms w)"
  "map fst (chatrooms (handleJoin cid chatroomName now w)) = map fst (chatrooms w)"
  "map fst (chatrooms (handleLeave cid chatroomName now w)) = map fst (chatrooms w)"
  "map fst (chatrooms (snd (handleMessage cid payload callback now w))) = map fst (chatrooms w)"
  "map fst (chatrooms (handleDisconnect cid clock w)) = map fst (chatrooms w)"
proof -
  show "map fst (chatrooms (handleRegister cid uname w)) = map fst (chatrooms w)"
    by (simp add: handleRegister_def registerClient_def logged_fields)
  show "map fst (chatrooms (handleJoin cid chatroomName now w)) = map fst (chatrooms w)"
    using room_names_handleEvent [of cid chatroomName "joinedEntry chatroomName" now w]
    by (auto simp add: handleJoin_def Let_def logged_fields addUser_fields map_fst_mapModify
        split: prod.splits sum.splits)
  show "map fst (chatrooms (handleLeave cid chatroomName now w)) = map fst (chatrooms w)"
    using room_names_handleEvent [of cid chatroomName "leftEntry chatroomName" now w]
    by (auto simp add: handleLeave_def logged_fields removeUser_fields map_fst_mapModify
        split: prod.splits sum.splits)
  let ?p = "payloadOrDefault payload"
  show "map fst (chatrooms (snd (handleMessage cid payload callback now w))) =
      map fst (chatrooms w)"
    using room_names_handleEvent [of cid "msg_chatroomName ?p" "Message (msg_message ?p)" now w]
    by (cases callback)
      (auto simp add: handleMessage_def Let_def logged_fields split: prod.splits sum.splits)
  show "map fst (chatrooms (handleDisconnect cid clock w)) = map fst (chatrooms w)"
    by (simp add: handleDisconnect_unfold room_names_leaveReactions
        clientManager_removeClient_fields chatroomManager_removeClient_fields o_def)
qed

text \<open>
  The outcome of \<open>handleDisconnect\<close> in general, for a store whose room names are
  distinct: the connection has no registry binding and is a member of no room. When the
  connection has a non-empty registered name, every room that contained it has the entry
  \<open>left <roomName>\<close> appended to its history and broadcast to the remaining members. When
  it has not, every such room leaves one unhandled rejection and no entry.
\<close>

lemma handleDisconnect_outcome:
  assumes "distinct (map fst (chatrooms w))"
  shows "let w' = handleDisconnect cid clock w;
             announce = (\<lambda>room.
               case getUserByClientId w cid of
                 None \<Rightarrow> None
               | Some uname \<Rightarrow>
                   if uname = '''' then None
                   else Some \<lparr>clientId = cid, userName = uname, timestamp = clock room,
                              event = Some (''left '' @ room), message = None\<rparr>)
         in clients w' = mapDelete cid (clients w) \<and>
            getUserByClientId w' cid = None \<and>
            (\<forall>kc \<in> set (chatrooms w'). cid \<notin> set (members (snd kc))) \<and>
            chatrooms w' =
              map (\<lambda>kc. (fst kc,
                         \<lparr>members = removeAll cid (members (snd kc)),
                          chatHistory = chatHistory (snd kc) @
                            (if cid \<in> set (members (snd kc))
                             then (case announce (fst kc) of None \<Rightarrow> [] | Some entry \<Rightarrow> [entry])
                             else [])\<rparr>))
                  (chatrooms w) \<and>
            trace w' =
              trace w @ [ChatroomsRemoveClient cid, ClientsRemoveClient cid] @
              concat (map (\<lambda>room.
                             case announce room of
                               None \<Rightarrow> [UnhandledRejection ''Register username to chat.'']
                             | Some entry \<Rightarrow>
                                 [AddEntry room entry,
                                  BroadcastMessage room (removeAll cid (membersOf w room))
                                    \<lparr>chat = Some room, body = entry\<rparr>])
                        (getChatroomsByClientId w cid))"
proof -
  let ?w2 = "clientManager_removeClient cid (chatroomManager_removeClient cid w)"
  let ?rooms = "getChatroomsByClientId w cid"
  let ?w' = "handleDisconnect cid clock w"
  let ?strip = "\<lambda>kc::string \<times> chatroom.
                  (fst kc, (snd kc)\<lparr>members := removeAll cid (members (snd kc))\<rparr>)"
  have w2_rooms: "chatrooms ?w2 = map ?strip (chatrooms w)"
    by (simp add: clientManager_removeClient_fields chatroomManager_removeClient_fields)
  have w2_clients: "clients ?w2 = mapDelete cid (clients w)"
    by (simp add: clientManager_removeClient_fields chatroomManager_removeClient_fields)
  have w2_trace: "trace ?w2 = trace w @ [ChatroomsRemoveClient cid, ClientsRemoveClient cid]"
    by (simp add: clientManager_removeClient_fields chatroomManager_removeClient_fields)
  have w2_keys: "distinct (map fst (chatrooms ?w2))"
    using assms by (simp add: w2_rooms o_def)
  have present: "\<forall>room \<in> set ?rooms. \<exists>c. map_of (chatrooms w) room = Some c"
    by (blast dest: getChatroomsByClientId_present)
  show ?thesis
  proof (cases "\<exists>uname. getUserByClientId w cid = Some uname \<and> uname \<noteq> ''''")
    case True
    then obtain uname where user: "getUserByClientId w cid = Some uname" "uname \<noteq> ''''"
      by blast
    let ?entry = "\<lambda>room. makeEntry cid uname (clock room) (leftEntry (Some room))"
    have entry: "\<And>room. ?entry room =
        \<lparr>clientId = cid, userName = uname, timestamp = clock room,
         event = Some (''left '' @ room), message = None\<rparr>"
      by (simp add: makeEntry_def leftEntry_def templateString_def)
    have run: "?w' = foldl (leftStep cid uname clock) ?w2 ?rooms"
      by (simp only: handleDisconnect_unfold foldl_leaveReaction_resolved [OF user present])
    have cl: "clients ?w' = mapDelete cid (clients w)"
      by (simp only: run foldl_leftStep_clients w2_clients)
    have tr: "trace ?w' = trace w @ [ChatroomsRemoveClient cid, ClientsRemoveClient cid] @
        concat (map (\<lambda>room. [AddEntry room (?entry room),
                   BroadcastMessage room (removeAll cid (membersOf w room))
                     \<lparr>chat = Some room, body = ?entry room\<rparr>]) ?rooms)"
      by (simp only: run foldl_leftStep_trace w2_trace membersOf_after_removal append_assoc)
    have "chatrooms ?w' =
        map (\<lambda>kc. (fst kc, (snd kc)\<lparr>chatHistory := chatHistory (snd kc) @
                     map ?entry (filter (\<lambda>r. r = fst kc) ?rooms)\<rparr>)) (map ?strip (chatrooms w))"
      by (simp only: run foldl_leftStep_chatrooms [OF w2_keys] w2_rooms)
    also have "\<dots> =
        map (\<lambda>kc. (fst kc,
                   \<lparr>members = removeAll cid (members (snd kc)),
                    chatHistory = chatHistory (snd kc) @
                      (if cid \<in> set (members (snd kc)) then [?entry (fst kc)] else [])\<rparr>))
            (chatrooms w)"
    proof -
      have "\<And>kc. kc \<in> set (chatrooms w) \<Longrightarrow>
          filter (\<lambda>r. r = fst kc) ?rooms = (if cid \<in> set (members (snd kc)) then [fst kc] else [])"
        using filter_key_of_selected [OF assms, where P = "\<lambda>kc. cid \<in> set (members (snd kc))"]
        by (simp add: getChatroomsByClientId_def)
      then show ?thesis by (auto simp add: o_def)
    qed
    finally have rooms: "chatrooms ?w' =
        map (\<lambda>kc. (fst kc,
                   \<lparr>members = removeAll cid (members (snd kc)),
                    chatHistory = chatHistory (snd kc) @
                      (if cid \<in> set (members (snd kc)) then [?entry (fst kc)] else [])\<rparr>))
            (chatrooms w)" .
    have gone: "\<forall>kc \<in> set (chatrooms ?w'). cid \<notin> set (members (snd kc))"
      by (auto simp add: rooms)
    have unbound: "getUserByClientId ?w' cid = None"
      by (simp add: getUserByClientId_def cl map_of_mapDelete)
    from cl unbound gone rooms tr user show ?thesis
      by (simp add: Let_def entry)
  next
    case False
    then have user: "getUserByClientId w cid = None \<or> getUserByClientId w cid = Some ''''"
      by (cases "getUserByClientId w cid") auto
    have run: "?w' = ?w2\<lparr>trace := trace ?w2 @
        map (\<lambda>room. UnhandledRejection ''Register username to chat.'') ?rooms\<rparr>"
      by (simp only: handleDisconnect_unfold foldl_leaveReaction_rejected [OF user present])
    have cl: "clients ?w' = mapDelete cid (clients w)"
      by (simp add: run w2_clients)
    have rooms: "chatrooms ?w' = map ?strip (chatrooms w)"
      by (simp add: run w2_rooms)
    have tr: "trace ?w' = trace w @ [ChatroomsRemoveClient cid, ClientsRemoveClient cid] @
        map (\<lambda>room. UnhandledRejection ''Register username to chat.'') ?rooms"
      by (simp add: run w2_trace)
    have unbound: "getUserByClientId ?w' cid = None"
      by (simp add: getUserByClientId_def cl map_of_mapDelete)
    have gone: "\<forall>kc \<in> set (chatrooms ?w'). cid \<notin> set (members (snd kc))"
      by (auto simp add: rooms)
    have flat: "concat (map (\<lambda>room. [UnhandledRejection ''Register username to chat.''])
        ?rooms) = map (\<lambda>room. UnhandledRejection ''Register username to chat.'') ?rooms"
      by (rule concat_singletons)
    from user cl unbound gone show ?thesis
      by (auto simp add: Let_def rooms tr flat)
  qed
qed

text \<open>
  C4. The connection \<open>''c1''\<close> is registered as alice and a member of general and of
  random. It registers again, under the empty name, which is available, and then
  disconnects. The validation of both leave events fails on the truthiness test of the
  name. Line 179 has dropped the two promises, so each failure is left as an unhandled
  rejection instead of being swallowed; no \<open>left\<close> entry is recorded or broadcast. The
  membership and the registry binding are removed all the same.
\<close>

theorem handleDisconnect_unhandled_rejection:
  "handleDisconnect ''c1'' (\<lambda>room. epoch) (handleRegister ''c1'' '''' lobby) =
     \<lparr>clients = [(''c2'', ''bob'')],
      chatrooms = [(''general'', \<lparr>members = [''c2''], chatHistory = []\<rparr>),
                   (''random'', \<lparr>members = [], chatHistory = []\<rparr>)],
      trace = [RegisterClient ''c1'' '''', Callback (Registered ''c1'' ''''),
               ChatroomsRemoveClient ''c1'', ClientsRemoveClient ''c1'',
               UnhandledRejection ''Register username to chat.'',
               UnhandledRejection ''Register username to chat.'']\<rparr>"
  by (simp add: handleDisconnect_def leaveReaction_def getChatroomsByClientId_def
      chatroomManager_removeClient_def clientManager_removeClient_def
      handleRegister_def isUserAvailable_def registerClient_def
      ensureValidChatroomAndUser_def ensureValidChatroom_def ensureUser_def ensureExists_def
      truthyString_def truthyObject_def templateString_def getChatroomByName_def
      getUserByClientId_def logged_def Let_def lobby_def)

text \<open>
  Two clean disconnects, for comparison: alice under her name, whose \<open>left\<close> entries reach
  the remaining members, and the connection \<open>''c3''\<close> that never registered.
\<close>

lemma handleDisconnect_examples:
  "handleDisconnect ''c1'' (\<lambda>room. epoch) lobby =
     \<lparr>clients = [(''c2'', ''bob'')],
      chatrooms =
        [(''general'',
          \<lparr>members = [''c2''],
           chatHistory = [\<lparr>clientId = ''c1'', userName = ''alice'', timestamp = epoch,
                           event = Some ''left general'', message = None\<rparr>]\<rparr>),
         (''random'',
          \<lparr>members = [],
           chatHistory = [\<lparr>clientId = ''c1'', userName = ''alice'', timestamp = epoch,
                           event = Some ''left random'', message = None\<rparr>]\<rparr>)],
      trace =
        [ChatroomsRemoveClient ''c1'', ClientsRemoveClient ''c1'',
         AddEntry ''general''
           \<lparr>clientId = ''c1'', userName = ''alice'', timestamp = epoch,
            event = Some ''left general'', message = None\<rparr>,
         BroadcastMessage ''general'' [''c2'']
           \<lparr>chat = Some ''general'',
            body = \<lparr>clientId = ''c1'', userName = ''alice'', timestamp = epoch,
                    event = Some ''left general'', message = None\<rparr>\<rparr>,
         AddEntry ''random''
           \<lparr>clientId = ''c1'', userName = ''alice'', timestamp = epoch,
            event = Some ''left random'', message = None\<rparr>,
         BroadcastMessage ''random'' []
           \<lparr>chat = Some ''random'',
            body = \<lparr>clientId = ''c1'', userName = ''alice'', timestamp = epoch,
                    event = Some ''left random'', message = None\<rparr>\<rparr>]\<rparr>"
  "handleDisconnect ''c3'' (\<lambda>room. epoch) lobby =
     lobby\<lparr>trace := [ChatroomsRemoveClient ''c3'', ClientsRemoveClient ''c3'']\<rparr>"
proof -
  have keys: "distinct (map fst (chatrooms lobby))"
    by (simp add: lobby_def)
  have eq: "\<And>(v::world) cs rs tr.
      clients v = cs \<Longrightarrow> chatrooms v = rs \<Longrightarrow> trace v = tr \<Longrightarrow>
      v = \<lparr>clients = cs, chatrooms = rs, trace = tr\<rparr>"
    by auto
  from handleDisconnect_outcome [OF keys, of "''c1''" "\<lambda>room. epoch"]
  show "handleDisconnect ''c1'' (\<lambda>room. epoch) lobby = \<lparr>clients = [(''c2'', ''bob'')],
      chatrooms =
        [(''general'',
          \<lparr>members = [''c2''],
           chatHistory = [\<lparr>clientId = ''c1'', userName = ''alice'', timestamp = epoch,
                           event = Some ''left general'', message = None\<rparr>]\<rparr>),
         (''random'',
          \<lparr>members = [],
           chatHistory = [\<lparr>clientId = ''c1'', userName = ''alice'', timestamp = epoch,
                           event = Some ''left random'', message = None\<rparr>]\<rparr>)],
      trace =
        [ChatroomsRemoveClient ''c1'', ClientsRemoveClient ''c1'',
         AddEntry ''general''
           \<lparr>clientId = ''c1'', userName = ''alice'', timestamp = epoch,
            event = Some ''left general'', message = None\<rparr>,
         BroadcastMessage ''general'' [''c2'']
           \<lparr>chat = Some ''general'',
            body = \<lparr>clientId = ''c1'', userName = ''alice'', timestamp = epoch,
                    event = Some ''left general'', message = None\<rparr>\<rparr>,
         AddEntry ''random''
           \<lparr>clientId = ''c1'', userName = ''alice'', timestamp = epoch,
            event = Some ''left random'', message = None\<rparr>,
         BroadcastMessage ''random'' []
           \<lparr>chat = Some ''random'',
            body = \<lparr>clientId = ''c1'', userName = ''alice'', timestamp = epoch,
                    event = Some ''left random'', message = None\<rparr>\<rparr>]\<rparr>"
    by (intro eq)
      (simp_all add: Let_def getUserByClientId_def getChatroomsByClientId_def membersOf_def
        lobby_def)
  from handleDisconnect_outcome [OF keys, of "''c3''" "\<lambda>room. epoch"]
  show "handleDisconnect ''c3'' (\<lambda>room. epoch) lobby =
      lobby\<lparr>trace := [ChatroomsRemoveClient ''c3'', ClientsRemoveClient ''c3'']\<rparr>"
    by (intro world.equality)
      (simp_all add: Let_def getUserByClientId_def getChatroomsByClientId_def membersOf_def
        lobby_def)
qed

end
